theory Spec2Isabelle
  imports Complex_Main "HOL-Library.Word"
begin

section \<open>JavaScript numbers\<close>

text \<open>
  The TypeScript sources compute with JavaScript numbers, which are doubles. Every number
  that occurs in the keyset decoder is either a non-negative integer read from a byte
  string, a sum or difference of such integers, or \<open>NaN\<close> (the result of parsing an empty
  digit string and of any arithmetic on \<open>NaN\<close>). They are modelled as integers with an
  extra \<open>NaN\<close> value. A double holds every integer of magnitude up to \<open>2 ^ 53\<close> and
  computes sums and differences of such integers without rounding as long as the result
  stays in this range; beyond it a double rounds, and the model does not. The theorems
  below are therefore stated for payloads whose numbers stay in this range.
\<close>

datatype number = Num int | NaN

fun num_add :: "number \<Rightarrow> number \<Rightarrow> number" where
  "num_add (Num a) (Num b) = Num (a + b)"
| "num_add _ _ = NaN"

fun num_sub :: "number \<Rightarrow> number \<Rightarrow> number" where
  "num_sub (Num a) (Num b) = Num (a - b)"
| "num_sub _ _ = NaN"

text \<open>\<open>a === b\<close> on numbers: \<open>NaN\<close> is not equal to anything, itself included.\<close>

fun strict_eq :: "number \<Rightarrow> number \<Rightarrow> bool" where
  "strict_eq (Num a) (Num b) = (a = b)"
| "strict_eq _ _ = False"

text \<open>
  The number of times the body of \<open>for (let i = 0; i < n; i++)\<close> runs: \<open>i < NaN\<close> is
  false, so the body never runs for \<open>NaN\<close>.
\<close>

fun iterations :: "number \<Rightarrow> nat" where
  "iterations (Num n) = nat n"
| "iterations NaN = 0"

section \<open>Byte strings\<close>

type_synonym Bytes = "8 word list"

text \<open>
  An index argument of \<open>String.prototype.slice\<close>, clamped against the length: \<open>NaN\<close>
  counts as 0, a negative index counts from the end, and nothing reaches past the end.
\<close>

fun to_index :: "nat \<Rightarrow> number \<Rightarrow> nat" where
  "to_index len NaN = 0"
| "to_index len (Num n) = (if n < 0 then nat (max (int len + n) 0) else min (nat n) len)"

definition Bytes_slice :: "Bytes \<Rightarrow> number \<Rightarrow> number \<Rightarrow> Bytes" where
  \<comment> \<open>Modelled from the spec: the class \<open>Bytes\<close> of package shared-pure is not among the
      sources. \<open>slice(start, end)\<close> is the bytes from \<open>start\<close> up to \<open>end\<close>, taken with the
      slice of the underlying hexadecimal string, which stops at the end of the string.\<close>
  "Bytes_slice b start end =
     (let from = to_index (length b) start; to = to_index (length b) end
      in take (to - from) (drop from b))"

definition be_value :: "Bytes \<Rightarrow> nat" where
  "be_value b = foldl (\<lambda>acc x. 256 * acc + unat x) 0 b"

definition Bytes_toNumber :: "Bytes \<Rightarrow> number" where
  \<comment> \<open>Modelled from the spec: \<open>Bytes.toNumber\<close> is not among the sources. The bytes are read
      as one big-endian integer; an empty byte string has no digits and yields \<open>NaN\<close>.\<close>
  "Bytes_toNumber b = (if b = [] then NaN else Num (int (be_value b)))"

definition Bytes_length :: "Bytes \<Rightarrow> number" where
  "Bytes_length b = Num (int (length b))"

subsection \<open>Base64\<close>

text \<open>
  \<open>base64.encode\<close> of the ethers library, applied to the hexadecimal text of a byte
  string: the standard alphabet with \<open>=\<close> padding.
\<close>

definition base64_alphabet :: string where
  "base64_alphabet = ''ABCDEFGHIJKLMNOPQRSTUVWXYZabcdefghijklmnopqrstuvwxyz0123456789+/''"

definition base64_char :: "nat \<Rightarrow> char" where
  "base64_char n = base64_alphabet ! (n mod 64)"

fun base64_nat :: "nat list \<Rightarrow> string" where
  "base64_nat [] = []"
| "base64_nat [a] =
     [base64_char (a div 4), base64_char ((a mod 4) * 16), CHR ''='', CHR ''='']"
| "base64_nat [a, b] =
     [base64_char (a div 4), base64_char ((a mod 4) * 16 + b div 16),
      base64_char ((b mod 16) * 4), CHR ''='']"
| "base64_nat (a # b # c # rest) =
     [base64_char (a div 4), base64_char ((a mod 4) * 16 + b div 16),
      base64_char ((b mod 16) * 4 + c div 64), base64_char (c mod 64)] @ base64_nat rest"

definition base64_encode :: "Bytes \<Rightarrow> string" where
  "base64_encode b = base64_nat (map unat b)"

section \<open>The keyset handler\<close>

text \<open>
  \<open>ArbitrumDACKeysetHandler.ts\<close>. An event log is a record of the ethers library; the
  decoder reads its \<open>data\<close> only. \<open>abi.decodeEventLog\<close> belongs to the ethers library: it
  is a parameter of the model, giving for the data of a log either the error it throws
  or the \<open>keysetBytes\<close> argument of the event (which \<open>Bytes.fromHex\<close> turns into bytes).
\<close>

record Log =
  topics :: "string list"
  data :: string

text \<open>
  \<open>assert(condition, message)\<close> of package shared-pure throws when the condition is
  false; the error carries the message, empty when none is given. The other errors of the
  handler are those that \<open>abi.decodeEventLog\<close> or the provider throw, and the
  \<open>RangeError\<close> of an array that cannot grow.
\<close>

datatype handler_error =
    AssertionError string
  | DecodeEventLogError string
  | RangeError string

record Keyset =
  requiredSignatures :: number
  membersCount :: number
  blsSignatures :: "string list"

text \<open>
  An array holds at most \<open>2 ^ 32 - 1\<close> elements: \<open>push\<close> on an array of this length
  throws a \<open>RangeError\<close>.
\<close>

definition MAX_ARRAY_LENGTH :: nat where
  "MAX_ARRAY_LENGTH = 2 ^ 32 - 1"

text \<open>
  The body of the loop over the members, run \<open>n\<close> times from the cursor \<open>head\<close>:
  \<^verbatim>\<open>
    const size = keysetBytes.slice(head, head + 2).toNumber()
    head += 2
    blsSignatures.push(base64.encode(keysetBytes.slice(head, head + size).toString()))
    head += size
  \<close>
  The result is the final cursor and the list of signatures, or the error of a \<open>push\<close>
  that the array cannot take. The loop does not compare the declared number of members
  with the length of the payload.
\<close>

fun members_loop ::
  "nat \<Rightarrow> Bytes \<Rightarrow> number \<Rightarrow> string list \<Rightarrow> handler_error + number \<times> string list" where
  "members_loop 0 keysetBytes head signatures = Inr (head, signatures)"
| "members_loop (Suc n) keysetBytes head signatures =
     (let size = Bytes_toNumber (Bytes_slice keysetBytes head (num_add head (Num 2)));
          head1 = num_add head (Num 2)
      in if MAX_ARRAY_LENGTH \<le> length signatures
         then Inl (RangeError ''Invalid array length'')
         else
           (let signatures1 =
                  signatures
                    @ [base64_encode (Bytes_slice keysetBytes head1 (num_add head1 size))];
                head2 = num_add head1 size
            in members_loop n keysetBytes head2 signatures1))"

text \<open>\<open>events.at(-1)\<close>: the last element, \<open>undefined\<close> for an empty array.\<close>

definition at_last :: "'a list \<Rightarrow> 'a option" where
  "at_last xs = (if xs = [] then None else Some (last xs))"

definition decodeLastEvent ::
  "(string \<Rightarrow> handler_error + Bytes) \<Rightarrow> Log list \<Rightarrow> handler_error + Keyset" where
  "decodeLastEvent decodeEventLog events =
     (if length events = 0
      then Inr \<lparr>requiredSignatures = Num 0, membersCount = Num 0, blsSignatures = []\<rparr>
      else
        (case at_last events of
           None \<Rightarrow> Inl (AssertionError ''Unexpected lack of event'')
         | Some lastEvent \<Rightarrow>
             (case decodeEventLog (data lastEvent) of
                Inl e \<Rightarrow> Inl e
              | Inr keysetBytes \<Rightarrow>
                  (let assummedHonestMembers =
                         Bytes_toNumber (Bytes_slice keysetBytes (Num 0) (Num 8));
                       membersCount = Bytes_toNumber (Bytes_slice keysetBytes (Num 8) (Num 16));
                       requiredSignatures =
                         num_add (num_sub membersCount assummedHonestMembers) (Num 1)
                   in case members_loop (iterations membersCount) keysetBytes (Num 16) [] of
                        Inl e \<Rightarrow> Inl e
                      | Inr (head, signatures) \<Rightarrow>
                          if strict_eq head (Bytes_length keysetBytes)
                          then Inr \<lparr>requiredSignatures = requiredSignatures,
                                    membersCount = membersCount,
                                    blsSignatures = signatures\<rparr>
                          else Inl (AssertionError '''')))))"

text \<open>
  \<open>execute\<close>: the logs come from the provider (\<open>getLogs\<close> may throw); the decoded keyset
  is the value of the handler's field.
\<close>

record HandlerResult =
  field :: string
  "value" :: Keyset

definition execute ::
  "string \<Rightarrow> (string \<Rightarrow> handler_error + Bytes) \<Rightarrow> handler_error + Log list \<Rightarrow>
   handler_error + HandlerResult" where
  "execute fld decodeEventLog getLogs =
     (case getLogs of
        Inl e \<Rightarrow> Inl e
      | Inr events \<Rightarrow>
          (case decodeLastEvent decodeEventLog events of
             Inl e \<Rightarrow> Inl e
           | Inr k \<Rightarrow> Inr \<lparr>field = fld, value = k\<rparr>))"

subsection \<open>The payload layout, as the specification words it\<close>

text \<open>
  The specification's reading of the members: starting at the cursor, repeat \<open>n\<close>
  times: read a 2-byte big-endian length, then that many bytes as one member's key, and
  advance the cursor by 2 + length. The result is the keys and the final cursor, or
  \<open>None\<close> when a length or a key would reach past the end of the payload.
\<close>

fun spec_members :: "nat \<Rightarrow> Bytes \<Rightarrow> nat \<Rightarrow> (Bytes list \<times> nat) option" where
  "spec_members 0 payload cursor = Some ([], cursor)"
| "spec_members (Suc n) payload cursor =
     (if cursor + 2 \<le> length payload
      then
        (let len = be_value (take 2 (drop cursor payload))
         in if cursor + 2 + len \<le> length payload
            then
              (case spec_members n payload (cursor + 2 + len) of
                 None \<Rightarrow> None
               | Some (keys, final) \<Rightarrow>
                   Some (take len (drop (cursor + 2) payload) # keys, final))
            else None)
      else None)"

text \<open>
  The specification's decoding of a payload: bytes 0-7 are the assumed-honest count,
  bytes 8-15 the member count \<open>N\<close>, the members start at byte 16, and after \<open>N\<close> members
  the cursor must be the length of the payload. \<open>None\<close> is a payload that does not have
  this layout.
\<close>

definition spec_decode :: "Bytes \<Rightarrow> Keyset option" where
  "spec_decode payload =
     (if length payload < 16 then None
      else
        (let assumedHonest = be_value (take 8 payload);
             N = be_value (take 8 (drop 8 payload))
         in case spec_members N payload 16 of
              None \<Rightarrow> None
            | Some (keys, final) \<Rightarrow>
                if final = length payload
                then Some \<lparr>requiredSignatures = Num (int N - int assumedHonest + 1),
                           membersCount = Num (int N),
                           blsSignatures = map base64_encode keys\<rparr>
                else None))"


text \<open>
  For the proofs, the cursor and the signatures after \<open>n\<close> runs of the body on an array
  that takes every \<open>push\<close>. \<open>members_loop\<close> computes the same as long as its array stays
  within its bound.
\<close>

fun members_run :: "nat \<Rightarrow> Bytes \<Rightarrow> number \<Rightarrow> string list \<Rightarrow> number \<times> string list" where
  "members_run 0 keysetBytes head signatures = (head, signatures)"
| "members_run (Suc n) keysetBytes head signatures =
     (let size = Bytes_toNumber (Bytes_slice keysetBytes head (num_add head (Num 2)));
          head1 = num_add head (Num 2);
          signatures1 =
            signatures @ [base64_encode (Bytes_slice keysetBytes head1 (num_add head1 size))];
          head2 = num_add head1 size
      in members_run n keysetBytes head2 signatures1)"

text \<open>
  A cursor past the end of the payload: \<open>NaN\<close>, or a position beyond the last byte. Every
  slice taken from such a cursor is empty.
\<close>

fun past_end :: "Bytes \<Rightarrow> number \<Rightarrow> bool" where
  "past_end p NaN = True"
| "past_end p (Num x) = (int (length p) < x)"

subsection \<open>A synthetic payload\<close>

text \<open>
  Assumed honest 2, member count 3, and three keys of 48 bytes each, every key preceded
  by its length \<open>0x0030\<close>.
\<close>

definition example_header :: Bytes where
  "example_header = [0, 0, 0, 0, 0, 0, 0, 2, 0, 0, 0, 0, 0, 0, 0, 3]"

definition example_payload :: Bytes where
  "example_payload =
     example_header @ [0, 48] @ replicate 48 1 @ [0, 48] @ replicate 48 2
       @ [0, 48] @ replicate 48 255"

text \<open>A payload of 16 bytes that declares \<open>2 ^ 32\<close> members.\<close>

definition oversized_payload :: Bytes where
  "oversized_payload = [0, 0, 0, 0, 0, 0, 0, 0, 0, 0, 0, 1, 0, 0, 0, 0]"

definition example_decodeEventLog :: "string \<Rightarrow> handler_error + Bytes" where
  "example_decodeEventLog d =
     (if d = ''0x02'' then Inr example_payload
      else if d = ''0x03'' then Inr (butlast example_payload)
      else if d = ''0x04'' then Inr oversized_payload
      else Inl (DecodeEventLogError ''data out-of-bounds''))"

section \<open>The discovery runner\<close>

text \<open>
  \<open>DiscoveryRunner.ts\<close>. A value thrown by the discovery step is caught as \<open>error\<close>
  of unknown type. The runner applies four operations to such values: \<open>isError\<close>,
  \<open>JSON.stringify(error)\<close>, \<open>Object.getOwnPropertyNames(err)\<close> and
  \<open>JSON.stringify(err, names, 2)\<close>. A value is modelled by what these operations do:
  \<^item> \<open>ErrorObj m j\<close>: an \<open>Error\<close> instance with the message \<open>m\<close> that
    \<open>JSON.stringify\<close> can write; \<open>j\<close> is the JSON text of its enumerable own properties,
    \<open>{}\<close> for a plain \<open>new Error(m)\<close>, whose message and stack are not enumerable;
  \<^item> \<open>NonError j\<close>: a value that is not an \<open>Error\<close>, not \<open>null\<close> and not \<open>undefined\<close>,
    and that \<open>JSON.stringify\<close> can write, with its JSON text \<open>j\<close>;
  \<^item> \<open>Null\<close> and \<open>Undefined\<close>;
  \<^item> \<open>Unserializable e l\<close>: a value for which \<open>JSON.stringify(error)\<close> throws (a cycle,
    a \<open>BigInt\<close>); \<open>e\<close> tells whether it is an \<open>Error\<close> instance, \<open>l\<close> whether
    \<open>JSON.stringify(err, names, 2)\<close>, which writes the named properties only, succeeds on
    it;
  \<^item> \<open>TypeError\<close>: the \<open>TypeError\<close> that the runtime throws from one of the operations.
\<close>

datatype thrown =
    ErrorObj string string
  | NonError string
  | Null
  | Undefined
  | Unserializable bool bool
  | TypeError

text \<open>\<open>isError\<close> of lodash, on the variable \<open>err: Error | undefined\<close>.\<close>

fun isError :: "thrown option \<Rightarrow> bool" where
  "isError None = False"
| "isError (Some (ErrorObj m j)) = True"
| "isError (Some (NonError j)) = False"
| "isError (Some Null) = False"
| "isError (Some Undefined) = False"
| "isError (Some (Unserializable e l)) = e"
| "isError (Some TypeError) = True"

text \<open>
  \<open>JSON.stringify(error)\<close> writes the enumerable own properties only; \<open>None\<close> stands for
  the \<open>TypeError\<close> it throws. For \<open>undefined\<close> it returns \<open>undefined\<close>, and
  \<open>new Error(undefined)\<close> has the empty message.
\<close>

fun JSON_stringify :: "thrown \<Rightarrow> string option" where
  "JSON_stringify (ErrorObj m j) = Some j"
| "JSON_stringify (NonError j) = Some j"
| "JSON_stringify Null = Some ''null''"
| "JSON_stringify Undefined = Some ''''"
| "JSON_stringify (Unserializable e l) = None"
| "JSON_stringify TypeError = Some ''{}''"

definition new_Error :: "string \<Rightarrow> thrown" where
  "new_Error m = ErrorObj m ''{}''"

text \<open>
  \<open>JSON.stringify(err, Object.getOwnPropertyNames(err), 2)\<close>, the text of the stored error
  for the warning: whether it can be built. \<open>Object.getOwnPropertyNames\<close> throws a
  \<open>TypeError\<close> for \<open>null\<close> and \<open>undefined\<close>.
\<close>

fun errorString :: "thrown \<Rightarrow> bool" where
  "errorString (ErrorObj m j) = True"
| "errorString (NonError j) = True"
| "errorString Null = False"
| "errorString Undefined = False"
| "errorString (Unserializable e l) = l"
| "errorString TypeError = True"

subsection \<open>Configuration\<close>

text \<open>
  The raw configuration of a project. The fields the runner reads or writes are named;
  all other fields of the object are the extension of the record, which a record update
  leaves alone, as the object spread \<open>{...config.raw, initialAddresses, ...}\<close> does.
\<close>

record RawDiscoveryConfig =
  name :: string
  chain :: string
  initialAddresses :: "string list"
  maxAddresses :: "int option"
  maxDepth :: "int option"

datatype 'a DiscoveryConfig = DiscoveryConfig (raw: "'a RawDiscoveryConfig_scheme")
  \<comment> \<open>Modelled from the spec: the class \<open>DiscoveryConfig\<close> of package discovery is not among
      the sources. A run config is built from a raw configuration (seed addresses, bounds,
      chain) and keeps it as \<open>raw\<close>; its \<open>name\<close> and \<open>chain\<close> are those of the raw
      configuration.\<close>

record ContractParameters =
  address :: string

record DiscoveryOutput =
  contracts :: "ContractParameters list"

definition MAX_RETRIES :: int where
  "MAX_RETRIES = 30"

definition RETRY_DELAY_MS :: int where
  "RETRY_DELAY_MS = 20000"

text \<open>\<open>a ?? b\<close>\<close>

fun nullish :: "'a option \<Rightarrow> 'a \<Rightarrow> 'a" where
  "nullish None b = b"
| "nullish (Some a) b = a"

text \<open>
  \<open>updateInitialAddresses\<close>. \<open>readDiscovery\<close> belongs to the config reader, which is a
  parameter: it gives the persisted output of the previous run of a project on a chain,
  or throws. \<open>this_chain\<close> is the chain of the runner. The two bounds are whole numbers;
  their products with 3 are those of the code as long as they stay within \<open>2 ^ 53\<close>,
  where a double does not round.
\<close>

definition updateInitialAddresses ::
  "(string \<Rightarrow> string \<Rightarrow> thrown + DiscoveryOutput) \<Rightarrow> string \<Rightarrow> 'a DiscoveryConfig \<Rightarrow>
   thrown + 'a DiscoveryConfig" where
  "updateInitialAddresses readDiscovery this_chain config =
     (case readDiscovery (name (raw config)) this_chain of
        Inl e \<Rightarrow> Inl e
      | Inr discovery \<Rightarrow>
          (let addresses = map address (contracts discovery)
           in Inr (DiscoveryConfig
                ((raw config)
                   \<lparr>initialAddresses := addresses,
                    maxAddresses := Some (nullish (maxAddresses (raw config)) 200 * 3),
                    maxDepth := Some (nullish (maxDepth (raw config)) 6 * 3)\<rparr>))))"

subsection \<open>The retry loop\<close>

text \<open>
  What the runner does to the outside, in order: an invocation of the discovery step with
  a config and a block number, a warning of the logger (project name, chain, attempt
  index and the error that is written into the message), and a wait of the given number
  of milliseconds.
\<close>

datatype 'a event =
    Discover "'a DiscoveryConfig" nat
  | Warn string string nat thrown
  | Delay int

text \<open>
  The variables of \<open>discoverWithRetry\<close>, the events so far, and the error that left the
  loop, if one was thrown outside the \<open>try\<close> block.
\<close>

record ('a, 'r) retry_state =
  result :: "'r option"
  err :: "thrown option"
  trace :: "'a event list"
  uncaught :: "thrown option"

text \<open>
  The loop \<open>for (let i = 0; i <= maxRetries; i++)\<close>. The discovery step is a parameter:
  \<open>discover i\<close> is the outcome of its invocation in iteration \<open>i\<close>, a thrown value or a
  result. A result ends the loop (\<open>break\<close>). A thrown value is stored in \<open>err\<close>, as it
  is when the previous \<open>err\<close> is an \<open>Error\<close> and wrapped in a new \<open>Error\<close> otherwise;
  then the text of the stored error is built, the warning is logged, and the loop waits.
  The \<open>catch\<close> block and the statements after it are not inside a \<open>try\<close>: a
  \<open>TypeError\<close> from \<open>JSON.stringify\<close> or \<open>Object.getOwnPropertyNames\<close> leaves the loop
  and the function, before the warning and the wait.
\<close>

function retry_loop ::
  "(nat \<Rightarrow> thrown + 'r) \<Rightarrow> 'a DiscoveryConfig \<Rightarrow> nat \<Rightarrow> int \<Rightarrow> int \<Rightarrow> nat \<Rightarrow>
   ('a, 'r) retry_state \<Rightarrow> ('a, 'r) retry_state" where
  "retry_loop discover config blockNumber maxRetries delayMs i st =
     (if int i \<le> maxRetries
      then
        (case discover i of
           Inr r \<Rightarrow> st\<lparr>result := Some r, trace := trace st @ [Discover config blockNumber]\<rparr>
         | Inl error \<Rightarrow>
             (case (if isError (err st) then Some error
                    else map_option new_Error (JSON_stringify error)) of
                None \<Rightarrow>
                  st\<lparr>trace := trace st @ [Discover config blockNumber],
                     uncaught := Some TypeError\<rparr>
              | Some e \<Rightarrow>
                  if errorString e
                  then retry_loop discover config blockNumber maxRetries delayMs (Suc i)
                         (st\<lparr>err := Some e,
                             trace := trace st @
                               [Discover config blockNumber,
                                Warn (name (raw config)) (chain (raw config)) i e,
                                Delay delayMs]\<rparr>)
                  else st\<lparr>err := Some e,
                          trace := trace st @ [Discover config blockNumber],
                          uncaught := Some TypeError\<rparr>))
      else st)"
  by pat_completeness auto
termination
  by (relation "measure (\<lambda>(discover, config, blockNumber, maxRetries, delayMs, i, st).
        nat (maxRetries + 1 - int i))") auto

declare retry_loop.simps [simp del]

text \<open>
  \<open>discoverWithRetry\<close>: the outcome for the caller, a thrown value or the result, and
  the events. \<open>maxRetries\<close> and \<open>delayMs\<close> are optional, with the defaults
  \<open>MAX_RETRIES\<close> and \<open>RETRY_DELAY_MS\<close>, and are whole numbers. A result of the discovery
  step always has its \<open>discovery\<close>, by its type, so \<open>result?.discovery === undefined\<close>
  holds exactly when no attempt succeeded. \<open>assert\<close> of package shared-pure is not among
  the sources; its failure is an \<open>Error\<close> that carries the assertion's message.
\<close>

definition discoverWithRetry ::
  "(nat \<Rightarrow> thrown + 'r) \<Rightarrow> 'a DiscoveryConfig \<Rightarrow> nat \<Rightarrow> int option \<Rightarrow> int option \<Rightarrow>
   (thrown + 'r) \<times> 'a event list" where
  "discoverWithRetry discover config blockNumber maxRetries delayMs =
     (let st = retry_loop discover config blockNumber
                 (nullish maxRetries MAX_RETRIES) (nullish delayMs RETRY_DELAY_MS) 0
                 \<lparr>result = None, err = None, trace = [], uncaught = None\<rparr>
      in case uncaught st of
           Some t \<Rightarrow> (Inl t, trace st)
         | None \<Rightarrow>
             (case result st of
                None \<Rightarrow>
                  (case err st of
                     None \<Rightarrow>
                       (Inl (new_Error
                          ''Programmer error: Error should not be undefined there''),
                        trace st)
                   | Some e \<Rightarrow> (Inl e, trace st))
              | Some r \<Rightarrow> (Inr r, trace st)))"

text \<open>The options of a run; the logger is represented by the warnings among the events.\<close>

record DiscoveryRunnerOptions =
  injectInitialAddresses :: bool
  maxRetries :: "int option"
  retryDelayMs :: "int option"

text \<open>
  \<open>run\<close>. The discovery step depends on the config it is given; a failure of
  \<open>updateInitialAddresses\<close> is thrown before any attempt.
\<close>

definition run ::
  "(string \<Rightarrow> string \<Rightarrow> thrown + DiscoveryOutput) \<Rightarrow> string \<Rightarrow>
   ('a DiscoveryConfig \<Rightarrow> nat \<Rightarrow> nat \<Rightarrow> thrown + 'r) \<Rightarrow>
   'a DiscoveryConfig \<Rightarrow> nat \<Rightarrow> DiscoveryRunnerOptions \<Rightarrow>
   (thrown + 'r) \<times> 'a event list" where
  "run readDiscovery this_chain discover projectConfig blockNumber options =
     (case (if injectInitialAddresses options
            then updateInitialAddresses readDiscovery this_chain projectConfig
            else Inr projectConfig) of
        Inl e \<Rightarrow> (Inl e, [])
      | Inr config \<Rightarrow>
          discoverWithRetry (discover config blockNumber) config blockNumber
            (maxRetries options) (retryDelayMs options))"

subsection \<open>Metrics\<close>

text \<open>
  The six gauges of the module.
\<close>

datatype gauge =
    lowLevelProviderCountGauge
  | lowLevelProviderDurationGauge
  | cacheProviderCountGauge
  | cacheProviderDurationGauge
  | highLevelProviderCountGauge
  | highLevelProviderDurationGauge

text \<open>
  Counts and durations are JavaScript numbers, and the average of the durations is
  computed with the addition and the division of doubles, which round. The numbers are a
  type parameter \<open>'n\<close>, and the arithmetic that the code uses on them is a parameter of
  the model: the addition, the division, and the number that stands for a natural number
  (the literal \<open>0\<close> and the length of an array).
\<close>

record 'n arithmetic =
  js_add :: "'n \<Rightarrow> 'n \<Rightarrow> 'n"
  js_divide :: "'n \<Rightarrow> 'n \<Rightarrow> 'n"
  js_number :: "nat \<Rightarrow> 'n"

record 'n ProviderStatsEntry =
  count :: 'n
  durations :: "'n list"

text \<open>
  \<open>stats.get(index)\<close> is the entry of a measured method; the indices are the values of
  \<open>ProviderMeasurement\<close>, of a type \<open>'i\<close>.
\<close>

type_synonym ('i, 'n) ProviderStats = "'i \<Rightarrow> 'n ProviderStatsEntry"

record ('i, 'n) AllProviderStats =
  lowLevelMeasurements :: "('i, 'n) ProviderStats"
  cacheMeasurements :: "('i, 'n) ProviderStats"
  highLevelMeasurements :: "('i, 'n) ProviderStats"

text \<open>
  The events of the discovery step: the call of the engine, \<open>gauge.set({chain, method},
  value)\<close>, and the two conversions of the engine's result.
\<close>

datatype 'n step_event =
    EngineDiscover
  | GaugeSet gauge string string 'n
  | ToDiscoveryOutput
  | FlattenDiscoveredSources

text \<open>
  The average of one entry: \<open>durations.reduce((acc, v) => acc + v) / durations.length\<close>
  under the guard \<open>durations.length > 0\<close>, and 0 otherwise. A \<open>reduce\<close> without an initial
  value starts from the first element and adds the others in their order.
\<close>

definition average :: "'n arithmetic \<Rightarrow> 'n list \<Rightarrow> 'n" where
  "average ar ds =
     (case ds of
        [] \<Rightarrow> js_number ar 0
      | d # rest \<Rightarrow>
          js_divide ar (foldl (\<lambda>acc v. js_add ar acc v) d rest) (js_number ar (length ds)))"

text \<open>
  \<open>setProviderGauge\<close>. \<open>Object.entries(ProviderMeasurement)\<close>, the measured methods as
  pairs of a name and an index, is a parameter: \<open>ProviderMeasurement\<close> is not among the
  sources.
\<close>

definition setProviderGauge ::
  "'n arithmetic \<Rightarrow> (string \<times> 'i) list \<Rightarrow> gauge \<Rightarrow> gauge \<Rightarrow> ('i, 'n) ProviderStats \<Rightarrow>
   string \<Rightarrow> 'n step_event list" where
  "setProviderGauge ar entries countGauge durationGauge stats chn =
     concat (map (\<lambda>(key, index).
        (let entry = stats index;
             avg = average ar (durations entry)
         in [GaugeSet countGauge chn key (count entry),
             GaugeSet durationGauge chn key avg])) entries)"

definition setDiscoveryMetrics ::
  "'n arithmetic \<Rightarrow> (string \<times> 'i) list \<Rightarrow> ('i, 'n) AllProviderStats \<Rightarrow> string \<Rightarrow>
   'n step_event list" where
  "setDiscoveryMetrics ar entries stats chn =
     setProviderGauge ar entries lowLevelProviderCountGauge lowLevelProviderDurationGauge
       (lowLevelMeasurements stats) chn
     @ setProviderGauge ar entries cacheProviderCountGauge cacheProviderDurationGauge
       (cacheMeasurements stats) chn
     @ setProviderGauge ar entries highLevelProviderCountGauge highLevelProviderDurationGauge
       (highLevelMeasurements stats) chn"

record ('d, 'f) DiscoveryRunResult =
  discovery :: 'd
  flatSources :: 'f

text \<open>
  \<open>discover\<close>, one discovery step. The engine, the statistics of the providers and the
  two conversions are parameters: \<open>engine\<close> is the outcome of
  \<open>discoveryEngine.discover\<close>, a thrown value or the discovered graph, and \<open>stats\<close> is
  what \<open>allProviders.getStats(config.chain)\<close> gives after it; \<open>hash\<close> is the hash of a
  config. When the engine throws, nothing else of the step runs.
\<close>

definition discover ::
  "'n arithmetic \<Rightarrow> (string \<times> 'i) list \<Rightarrow> thrown + 'g \<Rightarrow> ('i, 'n) AllProviderStats \<Rightarrow>
   ('a DiscoveryConfig \<Rightarrow> string) \<Rightarrow>
   (string \<Rightarrow> string \<Rightarrow> string \<Rightarrow> nat \<Rightarrow> 'g \<Rightarrow> 'd) \<Rightarrow> ('g \<Rightarrow> 'f) \<Rightarrow>
   'a DiscoveryConfig \<Rightarrow> nat \<Rightarrow>
   (thrown + ('d, 'f) DiscoveryRunResult) \<times> 'n step_event list" where
  "discover ar entries engine stats hash toDiscoveryOutput flattenDiscoveredSources config
     blockNumber =
     (case engine of
        Inl e \<Rightarrow> (Inl e, [EngineDiscover])
      | Inr graph \<Rightarrow>
          (Inr \<lparr>discovery =
                  toDiscoveryOutput (name (raw config)) (chain (raw config)) (hash config)
                    blockNumber graph,
                flatSources = flattenDiscoveredSources graph\<rparr>,
           [EngineDiscover] @ setDiscoveryMetrics ar entries stats (chain (raw config))
             @ [ToDiscoveryOutput, FlattenDiscoveredSources]))"

subsection \<open>Reading the events\<close>

text \<open>
  The kind of an event of the retry loop, without the config and the error it carries:
  an attempt, the warning of the attempt with a given index, a wait of a given length.
\<close>

datatype event_kind = Attempt | Warning nat | Wait int

fun kind :: "'a event \<Rightarrow> event_kind" where
  "kind (Discover c b) = Attempt"
| "kind (Warn n ch i e) = Warning i"
| "kind (Delay d) = Wait d"

text \<open>
  The thrown values on which none of the runner's operations throws: a value that
  \<open>JSON.stringify\<close> can write and that is not \<open>null\<close> or \<open>undefined\<close>.
\<close>

fun ordinary :: "thrown \<Rightarrow> bool" where
  "ordinary (ErrorObj m j) = True"
| "ordinary (NonError j) = True"
| "ordinary TypeError = True"
| "ordinary Null = False"
| "ordinary Undefined = False"
| "ordinary (Unserializable e l) = False"



subsection \<open>Example runs\<close>

text \<open>
  A project config with one more field than the runner knows, the persisted output of a
  previous run with two contracts, and two discovery steps: one that throws
  \<open>new Error('boom')\<close> at every attempt, and one that throws it at the first attempt only.
\<close>

definition example_config :: "string DiscoveryConfig" where
  "example_config =
     DiscoveryConfig
       \<lparr>name = ''project'', chain = ''ethereum'', initialAddresses = [''0xaa''],
        maxAddresses = Some 50, maxDepth = None, \<dots> = ''overrides''\<rparr>"

definition example_previous :: DiscoveryOutput where
  "example_previous = \<lparr>contracts = [\<lparr>address = ''0x01''\<rparr>, \<lparr>address = ''0x02''\<rparr>]\<rparr>"

definition example_readDiscovery :: "string \<Rightarrow> string \<Rightarrow> thrown + DiscoveryOutput" where
  "example_readDiscovery project chn =
     (if project = ''project'' \<and> chn = ''ethereum'' then Inr example_previous
      else Inl (new_Error ''no such file''))"

definition always_fails :: "nat \<Rightarrow> thrown + string" where
  "always_fails i = Inl (ErrorObj ''boom'' ''{}'')"

definition fails_once :: "nat \<Rightarrow> thrown + string" where
  "fails_once i = (if i < 1 then Inl (ErrorObj ''boom'' ''{}'') else Inr ''output'')"

definition example_step :: "string DiscoveryConfig \<Rightarrow> nat \<Rightarrow> nat \<Rightarrow> thrown + string" where
  "example_step config blockNumber i =
     (if i < 1 then Inl (ErrorObj ''boom'' ''{}'')
      else Inr (concat (initialAddresses (raw config))))"

definition example_options :: DiscoveryRunnerOptions where
  "example_options =
     \<lparr>injectInitialAddresses = True, maxRetries = Some 2, retryDelayMs = Some 10\<rparr>"






text \<open>A discovery step that rejects with \<open>null\<close> at every attempt.\<close>

definition rejects_with_null :: "nat \<Rightarrow> thrown + string" where
  "rejects_with_null i = Inl Null"

section \<open>Properties of the keyset handler\<close>

subsection \<open>Slices and cursors\<close>

lemma slice_int:
  "0 \<le> a \<Longrightarrow> 0 \<le> b \<Longrightarrow> Bytes_slice p (Num a) (Num b) = take (nat b - nat a) (drop (nat a) p)"
  by (cases "nat a < length p") (simp_all add: Bytes_slice_def Let_def min_def)

lemma slice_at: "Bytes_slice p (Num (int c)) (Num (int c + int n)) = take n (drop c p)"
  by (simp add: slice_int nat_add_distrib)

lemma slice_at2: "Bytes_slice p (Num (int c)) (Num (int c + 2)) = take 2 (drop c p)"
  using slice_at[of p c 2] by simp

lemma toNumber_nonempty: "b \<noteq> [] \<Longrightarrow> Bytes_toNumber b = Num (int (be_value b))"
  by (simp add: Bytes_toNumber_def)

lemma toNumber_nonneg: "Bytes_toNumber b = Num x \<Longrightarrow> 0 \<le> x"
  by (auto simp: Bytes_toNumber_def split: if_splits)

lemma members_run_step:
  "fst (members_run (Suc n) p h sigs) =
     (let size = Bytes_toNumber (Bytes_slice p h (num_add h (Num 2)));
          head2 = num_add (num_add h (Num 2)) size
      in fst (members_run n p head2
               (sigs @ [base64_encode (Bytes_slice p (num_add h (Num 2)) head2)])))"
  by (simp add: Let_def)

text \<open>A cursor past the end reads no length, and never comes back.\<close>

lemma past_end_size:
  "past_end p h \<Longrightarrow> Bytes_toNumber (Bytes_slice p h (num_add h (Num 2))) = NaN"
  by (cases h) (simp_all add: Bytes_slice_def Bytes_toNumber_def Let_def)

lemma past_end_loop: "past_end p h \<Longrightarrow> past_end p (fst (members_run n p h sigs))"
proof (induction n arbitrary: h sigs)
  case 0
  then show ?case by simp
next
  case (Suc n)
  have nan: "past_end p NaN" by simp
  have "num_add (num_add h (Num 2)) NaN = NaN" by (cases h) simp_all
  then show ?case
    unfolding members_run_step past_end_size[OF Suc.prems] Let_def
    using Suc.IH[OF nan] by simp
qed

lemma past_end_not_eq: "past_end p h \<Longrightarrow> \<not> strict_eq h (Bytes_length p)"
  by (cases h) (simp_all add: Bytes_length_def)

subsection \<open>The loop against the specification's reading\<close>

text \<open>
  Where the specification's reading stays inside the payload, the loop of the handler
  reaches the same cursor and pushes the encodings of the same keys.
\<close>

lemma members_run_spec:
  "spec_members n p c = Some (keys, final) \<Longrightarrow>
   members_run n p (Num (int c)) sigs = (Num (int final), sigs @ map base64_encode keys)"
proof (induction n arbitrary: c sigs keys final)
  case 0
  then show ?case by simp
next
  case (Suc n)
  let ?len = "be_value (take 2 (drop c p))"
  from Suc.prems have b1: "c + 2 \<le> length p" by (simp split: if_splits)
  from Suc.prems b1 have b2: "c + 2 + ?len \<le> length p" by (simp add: Let_def split: if_splits)
  from Suc.prems b1 b2 obtain ks where
    rec: "spec_members n p (c + 2 + ?len) = Some (ks, final)"
    and keys: "keys = take ?len (drop (c + 2) p) # ks"
    by (auto simp: Let_def split: option.splits)
  have ne: "take 2 (drop c p) \<noteq> []" using b1 by auto
  let ?size = "Bytes_toNumber (Bytes_slice p (Num (int c)) (Num (int c + 2)))"
  have size: "?size = Num (int ?len)"
    using ne by (simp add: slice_at2 toNumber_nonempty)
  have step: "members_run (Suc n) p (Num (int c)) sigs =
     members_run n p (num_add (Num (int c + 2)) ?size)
       (sigs @ [base64_encode (Bytes_slice p (Num (int c + 2)) (num_add (Num (int c + 2)) ?size))])"
    by (simp add: Let_def)
  have h2: "num_add (Num (int c + 2)) (Num (int ?len)) = Num (int (c + 2 + ?len))" by simp
  have key: "Bytes_slice p (Num (int c + 2)) (Num (int (c + 2 + ?len)))
               = take ?len (drop (c + 2) p)"
  proof -
    have "Bytes_slice p (Num (int (c + 2))) (Num (int (c + 2) + int ?len))
            = take ?len (drop (c + 2) p)"
      by (rule slice_at)
    then show ?thesis by (simp add: ac_simps)
  qed
  show ?case unfolding step size h2 key Suc.IH[OF rec] keys by simp
qed

text \<open>
  Where the specification's reading would leave the payload, the cursor of the handler
  ends past the end: a length or a key cut short by the end of the payload still moves
  the cursor by its declared size.
\<close>

lemma members_run_overrun:
  "spec_members n p c = None \<Longrightarrow> past_end p (fst (members_run n p (Num (int c)) sigs))"
proof (induction n arbitrary: c sigs)
  case 0
  then show ?case by simp
next
  case (Suc n)
  let ?len = "be_value (take 2 (drop c p))"
  let ?size = "Bytes_toNumber (Bytes_slice p (Num (int c)) (Num (int c + 2)))"
  let ?head2 = "num_add (Num (int c + 2)) ?size"
  have step: "fst (members_run (Suc n) p (Num (int c)) sigs) =
     fst (members_run n p ?head2
           (sigs @ [base64_encode (Bytes_slice p (Num (int c + 2)) ?head2)]))"
    by (simp add: Let_def)
  show ?case
  proof (cases "c + 2 \<le> length p")
    case False
    define size where "size = ?size"
    have "past_end p (num_add (Num (int c + 2)) size)"
    proof (cases size)
      case (Num x)
      then have "0 \<le> x" unfolding size_def by (rule toNumber_nonneg)
      with False show ?thesis by (simp add: Num)
    next
      case NaN
      then show ?thesis by simp
    qed
    then have "past_end p ?head2" unfolding size_def .
    then show ?thesis unfolding step by (rule past_end_loop)
  next
    case b1: True
    then have ne: "take 2 (drop c p) \<noteq> []" by auto
    have size: "?size = Num (int ?len)"
      using ne by (simp add: slice_at2 toNumber_nonempty)
    show ?thesis
    proof (cases "c + 2 + ?len \<le> length p")
      case False
      then have "past_end p ?head2" by (simp add: size)
      then show ?thesis unfolding step by (rule past_end_loop)
    next
      case True
      with Suc.prems b1 have rec: "spec_members n p (c + 2 + ?len) = None"
        by (simp add: Let_def split: option.splits prod.splits)
      have h2: "?head2 = Num (int (c + 2 + ?len))" by (simp add: size)
      show ?thesis unfolding step h2 by (rule Suc.IH[OF rec])
    qed
  qed
qed

lemma decode_header:
  assumes "16 \<le> length p"
  shows "Bytes_toNumber (Bytes_slice p (Num 0) (Num 8)) = Num (int (be_value (take 8 p)))"
    and "Bytes_toNumber (Bytes_slice p (Num 8) (Num 16)) = Num (int (be_value (take 8 (drop 8 p))))"
proof -
  have "take 8 p \<noteq> []" "take 8 (drop 8 p) \<noteq> []" using assms by auto
  then show "Bytes_toNumber (Bytes_slice p (Num 0) (Num 8)) = Num (int (be_value (take 8 p)))"
    and "Bytes_toNumber (Bytes_slice p (Num 8) (Num 16)) = Num (int (be_value (take 8 (drop 8 p))))"
    by (simp_all add: slice_int toNumber_nonempty)
qed

subsection \<open>The bound of the array\<close>

lemma members_loop_within_bound:
  "length sigs + n \<le> MAX_ARRAY_LENGTH \<Longrightarrow>
   members_loop n p h sigs = Inr (members_run n p h sigs)"
  by (induction n arbitrary: h sigs) (simp_all add: Let_def)

lemma members_loop_beyond_bound:
  "length sigs \<le> MAX_ARRAY_LENGTH \<Longrightarrow> MAX_ARRAY_LENGTH < length sigs + n \<Longrightarrow>
   \<exists>e. members_loop n p h sigs = Inl e"
proof (induction n arbitrary: h sigs)
  case 0
  then show ?case by simp
next
  case (Suc n)
  show ?case
  proof (cases "MAX_ARRAY_LENGTH \<le> length sigs")
    case True
    then show ?thesis by (simp add: Let_def)
  next
    case False
    let ?size = "Bytes_toNumber (Bytes_slice p h (num_add h (Num 2)))"
    let ?sigs = "sigs @ [base64_encode (Bytes_slice p (num_add h (Num 2))
                   (num_add (num_add h (Num 2)) ?size))]"
    from False Suc.prems have "length ?sigs \<le> MAX_ARRAY_LENGTH"
      and "MAX_ARRAY_LENGTH < length ?sigs + n" by simp_all
    from Suc.IH[OF this, of "num_add (num_add h (Num 2)) ?size"]
    show ?thesis using False by (simp add: Let_def)
  qed
qed

lemma spec_members_no_room:
  "0 < n \<Longrightarrow> length p < c + 2 \<Longrightarrow> spec_members n p c = None"
  by (cases n) simp_all

lemma declared_count:
  "iterations (Bytes_toNumber (Bytes_slice p (Num 8) (Num 16))) = be_value (take 8 (drop 8 p))"
  by (simp add: slice_int Bytes_toNumber_def be_value_def)

text \<open>With at least one log, only the payload of the last log is read.\<close>

lemma decodeLastEvent_nonempty:
  assumes "events \<noteq> []" and "decodeEventLog (data (last events)) = Inr p"
  shows "decodeLastEvent decodeEventLog events =
     (let assummedHonestMembers = Bytes_toNumber (Bytes_slice p (Num 0) (Num 8));
          n = Bytes_toNumber (Bytes_slice p (Num 8) (Num 16))
      in case members_loop (iterations n) p (Num 16) [] of
           Inl e \<Rightarrow> Inl e
         | Inr r \<Rightarrow>
             if strict_eq (fst r) (Bytes_length p)
             then Inr \<lparr>requiredSignatures = num_add (num_sub n assummedHonestMembers) (Num 1),
                       membersCount = n, blsSignatures = snd r\<rparr>
             else Inl (AssertionError ''''))"
  using assms
  by (simp add: decodeLastEvent_def at_last_def Let_def split: prod.splits sum.splits)

subsection \<open>Claims about the keyset handler\<close>

text \<open>
  C1. For every non-empty list of event logs the handler decodes the payload of the last
  log only, whatever the earlier logs are. If that payload has the layout of the
  specification (\<open>spec_decode\<close>: bytes 0-7 the big-endian assumed-honest count, bytes
  8-15 the big-endian member count \<open>N\<close>, then from byte 16 on \<open>N\<close> members, each a 2-byte
  big-endian length followed by that many key bytes, the cursor advancing by 2 + length
  and ending at the length of the payload), the handler returns exactly the keyset of the
  specification: \<open>membersCount = N\<close>, \<open>requiredSignatures = N - assumedHonest + 1\<close> and the
  Base64 text of every key, in order. This is stated for the payloads on which the
  handler's numbers are exact and its array can hold the members: an assumed-honest count
  below \<open>2 ^ 53\<close> and a member count below \<open>2 ^ 32\<close>. Every cursor is then at most the
  length of the payload, which is below \<open>2 ^ 49\<close>.
\<close>

theorem decodeLastEvent_decodes_last_log:
  assumes "events \<noteq> []"
      and "decodeEventLog (data (last events)) = Inr payload"
      and "spec_decode payload = Some keyset"
      and "be_value (take 8 payload) < 2 ^ 53"
      and "be_value (take 8 (drop 8 payload)) < 2 ^ 32"
  shows "decodeLastEvent decodeEventLog events = Inr keyset"
proof -
  let ?N = "be_value (take 8 (drop 8 payload))"
  from assms(3) have len: "16 \<le> length payload"
    by (simp add: spec_decode_def split: if_splits)
  from assms(3) len obtain keys where
    mem: "spec_members ?N payload 16 = Some (keys, length payload)"
    and ks: "keyset = \<lparr>requiredSignatures = Num (int ?N - int (be_value (take 8 payload)) + 1),
                       membersCount = Num (int ?N), blsSignatures = map base64_encode keys\<rparr>"
    by (auto simp: spec_decode_def Let_def split: if_splits option.splits)
  from members_run_spec[OF mem, of "[]"]
  have run: "members_run ?N payload (Num 16) [] =
      (Num (int (length payload)), map base64_encode keys)"
    by simp
  from assms(5) have "length ([] :: string list) + ?N \<le> MAX_ARRAY_LENGTH"
    by (simp add: MAX_ARRAY_LENGTH_def)
  then have "members_loop ?N payload (Num 16) [] = Inr (members_run ?N payload (Num 16) [])"
    by (rule members_loop_within_bound)
  with run have "members_loop ?N payload (Num 16) [] =
      Inr (Num (int (length payload)), map base64_encode keys)"
    by simp
  then show ?thesis
    unfolding decodeLastEvent_nonempty[of events decodeEventLog payload, OF assms(1,2)]
      decode_header[OF len] ks
    by (simp add: Let_def Bytes_length_def)
qed

text \<open>
  The synthetic payload with assumed honest 2, member count 3 and three keys of 48 bytes,
  in the last of two logs: required signatures 2, member count 3, three Base64 strings.
\<close>

theorem decodeLastEvent_decodes_last_log_witness:
  "decodeLastEvent example_decodeEventLog
     [\<lparr>topics = [], data = ''0x01''\<rparr>, \<lparr>topics = [], data = ''0x02''\<rparr>] =
   Inr \<lparr>requiredSignatures = Num 2, membersCount = Num 3,
        blsSignatures =
          [''AQEBAQEBAQEBAQEBAQEBAQEBAQEBAQEBAQEBAQEBAQEBAQEBAQEBAQEBAQEBAQEB'',
           ''AgICAgICAgICAgICAgICAgICAgICAgICAgICAgICAgICAgICAgICAgICAgICAgIC'',
           ''////////////////////////////////////////////////////////////////'']\<rparr>"
proof -
  let ?events = "[\<lparr>topics = [], data = ''0x01''\<rparr>, \<lparr>topics = [], data = ''0x02''\<rparr>]"
  have ne: "?events \<noteq> []" by simp
  have dec: "example_decodeEventLog (data (last ?events)) = Inr example_payload"
    by (simp add: example_decodeEventLog_def)
  have spec: "spec_decode example_payload =
     Some \<lparr>requiredSignatures = Num 2, membersCount = Num 3,
        blsSignatures =
          [''AQEBAQEBAQEBAQEBAQEBAQEBAQEBAQEBAQEBAQEBAQEBAQEBAQEBAQEBAQEBAQEB'',
           ''AgICAgICAgICAgICAgICAgICAgICAgICAgICAgICAgICAgICAgICAgICAgICAgIC'',
           ''////////////////////////////////////////////////////////////////'']\<rparr>"
    by code_simp
  have honest: "be_value (take 8 example_payload) < 2 ^ 53"
    by (simp add: example_payload_def example_header_def be_value_def)
  have members: "be_value (take 8 (drop 8 example_payload)) < 2 ^ 32"
    by (simp add: example_payload_def example_header_def be_value_def)
  show ?thesis
    by (rule decodeLastEvent_decodes_last_log[of ?events example_decodeEventLog,
          OF ne dec spec honest members])
qed

text \<open>
  C4. For an empty list of event logs the handler does not throw: the decoder returns
  \<open>requiredSignatures = 0\<close>, \<open>membersCount = 0\<close> and no signers, and \<open>execute\<close> returns that
  keyset as the value of the handler's field.
\<close>

theorem decodeLastEvent_no_logs:
  "decodeLastEvent decodeEventLog [] =
     Inr \<lparr>requiredSignatures = Num 0, membersCount = Num 0, blsSignatures = []\<rparr>
   \<and> execute fld decodeEventLog (Inr []) =
     Inr \<lparr>field = fld,
          value = \<lparr>requiredSignatures = Num 0, membersCount = Num 0, blsSignatures = []\<rparr>\<rparr>"
  by (simp add: decodeLastEvent_def execute_def)

text \<open>
  C5. A payload that does not have the layout of the specification is never decoded to a
  keyset: if the payload of the last log is shorter than its 16-byte header, or a
  declared length or key reaches past the end of the payload within the declared member
  count, or the cursor after the declared number of members is not the length of the
  payload (\<open>spec_decode\<close> gives \<open>None\<close> in exactly these cases), then the handler throws.
  When the declared member count is below \<open>2 ^ 32\<close>, the loop runs to its end and what is
  thrown is the failed assertion on the cursor. A payload that declares more members
  than an array can hold does not get that far: the loop takes no notice of the length of
  the payload, and a \<open>push\<close> throws.
\<close>

theorem decodeLastEvent_rejects_malformed:
  assumes "events \<noteq> []"
      and "decodeEventLog (data (last events)) = Inr payload"
      and "spec_decode payload = None"
  shows "(\<exists>e. decodeLastEvent decodeEventLog events = Inl e)
       \<and> (be_value (take 8 (drop 8 payload)) < 2 ^ 32 \<longrightarrow>
            decodeLastEvent decodeEventLog events = Inl (AssertionError ''''))"
proof (cases "be_value (take 8 (drop 8 payload)) < 2 ^ 32")
  case small: True
  let ?N = "be_value (take 8 (drop 8 payload))"
  let ?r = "members_run ?N payload (Num 16) []"
  from small have "length ([] :: string list) + ?N \<le> MAX_ARRAY_LENGTH"
    by (simp add: MAX_ARRAY_LENGTH_def)
  then have loop: "members_loop ?N payload (Num 16) [] = Inr ?r"
    by (rule members_loop_within_bound)
  have "\<not> strict_eq (fst ?r) (Bytes_length payload)"
  proof (cases "16 \<le> length payload")
    case False
    then have "past_end payload (Num 16)" by simp
    then show ?thesis by (intro past_end_not_eq past_end_loop)
  next
    case True
    show ?thesis
    proof (cases "spec_members ?N payload 16")
      case None
      from members_run_overrun[OF this, of "[]"] show ?thesis
        by (intro past_end_not_eq) simp
    next
      case (Some r)
      obtain keys final where r: "r = (keys, final)" by (cases r)
      with Some assms(3) True have "final \<noteq> length payload"
        by (auto simp: spec_decode_def Let_def split: if_splits)
      with members_run_spec[OF Some[unfolded r], of "[]"] show ?thesis
        by (simp add: Bytes_length_def)
    qed
  qed
  then have "decodeLastEvent decodeEventLog events = Inl (AssertionError '''')"
    unfolding decodeLastEvent_nonempty[of events decodeEventLog payload, OF assms(1,2)]
    by (simp add: Let_def declared_count loop)
  then show ?thesis by simp
next
  case False
  let ?N = "be_value (take 8 (drop 8 payload))"
  from False have "length ([] :: string list) \<le> MAX_ARRAY_LENGTH"
    and "MAX_ARRAY_LENGTH < length ([] :: string list) + ?N"
    by (simp_all add: MAX_ARRAY_LENGTH_def)
  then obtain e where "members_loop ?N payload (Num 16) [] = Inl e"
    using members_loop_beyond_bound by blast
  then have "decodeLastEvent decodeEventLog events = Inl e"
    unfolding decodeLastEvent_nonempty[of events decodeEventLog payload, OF assms(1,2)]
    by (simp add: Let_def declared_count)
  with False show ?thesis by simp
qed

text \<open>
  The synthetic payload without its last byte: the third key is declared with 48 bytes
  and only 47 are left. And a payload of 16 bytes that declares \<open>2 ^ 32\<close> members.
\<close>

theorem decodeLastEvent_rejects_malformed_witness:
  "spec_decode (butlast example_payload) = None
   \<and> be_value (take 8 (drop 8 (butlast example_payload))) < 2 ^ 32
   \<and> decodeLastEvent example_decodeEventLog [\<lparr>topics = [], data = ''0x03''\<rparr>] =
     Inl (AssertionError '''')
   \<and> (\<exists>e. decodeLastEvent example_decodeEventLog [\<lparr>topics = [], data = ''0x04''\<rparr>] = Inl e)"
proof -
  let ?big = "[\<lparr>topics = [], data = ''0x04''\<rparr>]"
  have big_ne: "?big \<noteq> []" by simp
  have big_dec: "example_decodeEventLog (data (last ?big)) = Inr oversized_payload"
    by (simp add: example_decodeEventLog_def)
  have big_count: "be_value (take 8 (drop 8 oversized_payload)) = 2 ^ 32"
    by (simp add: oversized_payload_def be_value_def)
  have "spec_members (2 ^ 32) oversized_payload 16 = None"
    by (rule spec_members_no_room) (simp_all add: oversized_payload_def)
  then have big_spec: "spec_decode oversized_payload = None"
    by (simp add: spec_decode_def big_count)
  note big = decodeLastEvent_rejects_malformed[of ?big example_decodeEventLog,
               OF big_ne big_dec big_spec]
  let ?events = "[\<lparr>topics = [], data = ''0x03''\<rparr>]"
  have ne: "?events \<noteq> []" by simp
  have dec: "example_decodeEventLog (data (last ?events)) = Inr (butlast example_payload)"
    by (simp add: example_decodeEventLog_def)
  have spec: "spec_decode (butlast example_payload) = None"
    by code_simp
  have members: "be_value (take 8 (drop 8 (butlast example_payload))) < 2 ^ 32"
    by (simp add: example_payload_def example_header_def be_value_def butlast_append)
  from decodeLastEvent_rejects_malformed[of ?events example_decodeEventLog, OF ne dec spec]
    spec members big
  show ?thesis by simp
qed

section \<open>Properties of the discovery runner\<close>

subsection \<open>One iteration of the retry loop\<close>

lemma retry_loop_stop:
  "\<not> int i \<le> m \<Longrightarrow> retry_loop step cfg bn m d i st = st"
  by (simp add: retry_loop.simps)

lemma retry_loop_success:
  "int i \<le> m \<Longrightarrow> step i = Inr r \<Longrightarrow>
   retry_loop step cfg bn m d i st = st\<lparr>result := Some r, trace := trace st @ [Discover cfg bn]\<rparr>"
  by (simp add: retry_loop.simps)

lemma ordinary_stringify: "ordinary e \<Longrightarrow> \<exists>j. JSON_stringify e = Some j"
  by (cases e) simp_all

lemma ordinary_errorString: "ordinary e \<Longrightarrow> errorString e"
  by (cases e) simp_all

lemma ordinary_new_Error: "ordinary (new_Error s)"
  by (simp add: new_Error_def)

text \<open>
  A failed attempt whose thrown value is ordinary: some ordinary value is stored and
  logged, the loop waits and goes on.
\<close>

lemma retry_loop_failure:
  assumes "int i \<le> m" and "step i = Inl e" and "ordinary e"
  shows "\<exists>e'. ordinary e' \<and>
           retry_loop step cfg bn m d i st =
             retry_loop step cfg bn m d (Suc i)
               (st\<lparr>err := Some e',
                   trace := trace st @
                     [Discover cfg bn, Warn (name (raw cfg)) (chain (raw cfg)) i e', Delay d]\<rparr>)"
proof (cases "isError (err st)")
  case True
  with assms ordinary_errorString[OF assms(3)] show ?thesis
    by (intro exI[of _ e]) (simp add: retry_loop.simps[of step cfg bn m d i st])
next
  case False
  from ordinary_stringify[OF assms(3)] obtain j where j: "JSON_stringify e = Some j" ..
  have "errorString (new_Error j)" by (rule ordinary_errorString[OF ordinary_new_Error])
  with assms False j show ?thesis
    by (intro exI[of _ "new_Error j"])
       (simp add: retry_loop.simps[of step cfg bn m d i st] ordinary_new_Error)
qed

subsection \<open>Runs of the retry loop\<close>


text \<open>
  When attempt \<open>k\<close> is within the bound and is the first one to succeed, and the earlier
  attempts fail with ordinary values, the loop ends there with its result, after one
  failed attempt with its warning and its wait for each earlier index.
\<close>

lemma retry_loop_succeeds:
  "i \<le> k \<Longrightarrow> int k \<le> m \<Longrightarrow> step k = Inr r \<Longrightarrow>
   (\<And>j. i \<le> j \<Longrightarrow> j < k \<Longrightarrow> \<exists>e. step j = Inl e \<and> ordinary e) \<Longrightarrow>
   result (retry_loop step cfg bn m d i st) = Some r
   \<and> uncaught (retry_loop step cfg bn m d i st) = uncaught st
   \<and> map kind (trace (retry_loop step cfg bn m d i st)) =
       map kind (trace st) @ concat (map (\<lambda>j. [Attempt, Warning j, Wait d]) [i..<k]) @ [Attempt]"
proof (induction "k - i" arbitrary: i st)
  case 0
  then have "i = k" by simp
  with 0 show ?case by (simp add: retry_loop_success)
next
  case (Suc n)
  then have lt: "i < k" by simp
  with Suc.prems have le: "int i \<le> m" by simp
  from Suc.prems(4)[of i] lt obtain e where e: "step i = Inl e" "ordinary e" by auto
  from retry_loop_failure[where i = i and m = m and step = step and e = e and cfg = cfg
         and bn = bn and d = d and st = st, OF le e]
  obtain e' where
    unf: "retry_loop step cfg bn m d i st =
       retry_loop step cfg bn m d (Suc i)
         (st\<lparr>err := Some e',
             trace := trace st @
               [Discover cfg bn, Warn (name (raw cfg)) (chain (raw cfg)) i e', Delay d]\<rparr>)"
    by blast
  let ?st = "st\<lparr>err := Some e',
           trace := trace st @
             [Discover cfg bn, Warn (name (raw cfg)) (chain (raw cfg)) i e', Delay d]\<rparr>"
  have n: "n = k - Suc i" using Suc.hyps(2) by simp
  have IH: "result (retry_loop step cfg bn m d (Suc i) ?st) = Some r
   \<and> uncaught (retry_loop step cfg bn m d (Suc i) ?st) = uncaught ?st
   \<and> map kind (trace (retry_loop step cfg bn m d (Suc i) ?st)) =
       map kind (trace ?st) @ concat (map (\<lambda>j. [Attempt, Warning j, Wait d]) [Suc i..<k])
         @ [Attempt]"
    by (rule Suc.hyps(1)[OF n]) (use lt Suc.prems in auto)
  from lt have up: "[i..<k] = i # [Suc i..<k]" by (simp add: upt_conv_Cons)
  from IH show ?case unfolding unf up by simp
qed

text \<open>Every invocation of the discovery step in the loop gets the config of the loop.\<close>

lemma retry_loop_discover_events:
  "Discover c b \<in> set (trace (retry_loop step cfg bn m d i st)) \<Longrightarrow>
   Discover c b \<in> set (trace st) \<or> (c = cfg \<and> b = bn)"
proof (induction "nat (m + 1 - int i)" arbitrary: i st)
  case 0
  then have "\<not> int i \<le> m" by simp
  with "0.prems" show ?case by (simp add: retry_loop_stop)
next
  case (Suc n)
  then have le: "int i \<le> m" by simp
  have n: "n = nat (m + 1 - int (Suc i))" using Suc.hyps(2) by simp
  show ?case
  proof (cases "step i")
    case (Inr r)
    with le Suc.prems show ?thesis by (auto simp: retry_loop_success)
  next
    case (Inl e)
    let ?stored = "if isError (err st) then Some e else map_option new_Error (JSON_stringify e)"
    show ?thesis
    proof (cases ?stored)
      case None
      with le Inl Suc.prems show ?thesis
        by (auto simp: retry_loop.simps[of step cfg bn m d i st])
    next
      case (Some e')
      show ?thesis
      proof (cases "errorString e'")
        case False
        with le Inl Some Suc.prems show ?thesis
          by (auto simp: retry_loop.simps[of step cfg bn m d i st])
      next
        case True
        let ?st = "st\<lparr>err := Some e',
             trace := trace st @
               [Discover cfg bn, Warn (name (raw cfg)) (chain (raw cfg)) i e', Delay d]\<rparr>"
        have unf: "retry_loop step cfg bn m d i st = retry_loop step cfg bn m d (Suc i) ?st"
          using le Inl Some True by (simp add: retry_loop.simps[of step cfg bn m d i st])
        from Suc.prems have "Discover c b \<in> set (trace ?st) \<or> c = cfg \<and> b = bn"
          unfolding unf by (rule Suc.hyps(1)[OF n])
        then show ?thesis by auto
      qed
    qed
  qed
qed

subsection \<open>Failed attempts in a list of events\<close>


subsection \<open>The average of an entry\<close>



subsection \<open>The outcome of \<open>discoverWithRetry\<close>\<close>

text \<open>
  If attempt \<open>k\<close> is within the bound and is the first to succeed, and the earlier attempts
  fail with ordinary values, \<open>discoverWithRetry\<close> returns its result, and the events are
  \<open>k\<close> failed attempts, each with one warning and one wait, and the successful attempt.
\<close>

lemma discoverWithRetry_result_after_failures:
  assumes "int k \<le> nullish mr MAX_RETRIES" and "step k = Inr r"
      and "\<And>j. j < k \<Longrightarrow> \<exists>e. step j = Inl e \<and> ordinary e"
  shows "fst (discoverWithRetry step cfg bn mr dl) = Inr r"
    and "map kind (snd (discoverWithRetry step cfg bn mr dl)) =
           concat (map (\<lambda>j. [Attempt, Warning j, Wait (nullish dl RETRY_DELAY_MS)]) [0..<k])
             @ [Attempt]"
proof -
  let ?st = "retry_loop step cfg bn (nullish mr MAX_RETRIES) (nullish dl RETRY_DELAY_MS) 0
               \<lparr>result = None, err = None, trace = [], uncaught = None\<rparr>"
  have "result ?st = Some r \<and> uncaught ?st = None \<and> map kind (trace ?st) =
        concat (map (\<lambda>j. [Attempt, Warning j, Wait (nullish dl RETRY_DELAY_MS)]) [0..<k])
        @ [Attempt]"
    using retry_loop_succeeds[where i = 0 and k = k and m = "nullish mr MAX_RETRIES"
            and step = step and r = r and cfg = cfg and bn = bn
            and d = "nullish dl RETRY_DELAY_MS"
            and st = "\<lparr>result = None, err = None, trace = [], uncaught = None\<rparr>"] assms
    by simp
  then show "fst (discoverWithRetry step cfg bn mr dl) = Inr r"
    and "map kind (snd (discoverWithRetry step cfg bn mr dl)) =
           concat (map (\<lambda>j. [Attempt, Warning j, Wait (nullish dl RETRY_DELAY_MS)]) [0..<k])
             @ [Attempt]"
    by (simp_all add: discoverWithRetry_def Let_def)
qed


text \<open>
  A step that rejects with \<open>null\<close>, with \<open>maxRetries = 2\<close>: the first \<open>null\<close> is wrapped and
  logged; the second is stored as it is, \<open>Object.getOwnPropertyNames(null)\<close> throws, and
  the \<open>TypeError\<close> ends the run after two attempts and one warning.
\<close>

lemma discoverWithRetry_null_rejection:
  "discoverWithRetry rejects_with_null example_config 100 (Some 2) (Some 10) =
     (Inl TypeError,
      [Discover example_config 100,
       Warn ''project'' ''ethereum'' 0 (ErrorObj ''null'' ''{}''),
       Delay 10,
       Discover example_config 100])"
  by code_simp

subsection \<open>Claims about the retry loop\<close>

text \<open>
  C2. The discovery step throws \<open>new Error('boom')\<close> at its first attempt and succeeds at
  its second, with \<open>maxRetries = 1\<close>. \<open>discoverWithRetry\<close> returns the result of the second
  attempt and logs one warning, as claimed, but the error in the warning is not the one
  the attempt threw: the \<open>catch\<close> block tests the previous \<open>err\<close>, which is \<open>undefined\<close>
  at the first failure, so it stores and logs \<open>new Error(JSON.stringify(error))\<close>, which
  is \<open>new Error('{}')\<close>.
\<close>

theorem discoverWithRetry_first_warning_wraps_error:
  "fails_once 0 = Inl (ErrorObj ''boom'' ''{}'')
   \<and> discoverWithRetry fails_once example_config 100 (Some 1) (Some 10) =
     (Inr ''output'',
      [Discover example_config 100,
       Warn ''project'' ''ethereum'' 0 (ErrorObj ''{}'' ''{}''),
       Delay 10,
       Discover example_config 100])"
  by code_simp

text \<open>
  C3. The discovery step throws \<open>new Error('boom')\<close> at every attempt, with
  \<open>maxRetries = 0\<close>. \<open>discoverWithRetry\<close> throws, and returns no result, but what it throws
  is not the error of the last attempt: it is \<open>new Error('{}')\<close>, the wrapping that the
  \<open>catch\<close> block applies when the previous \<open>err\<close> is not an \<open>Error\<close>.
\<close>

theorem discoverWithRetry_rethrows_wrapped_error:
  "always_fails 0 = Inl (ErrorObj ''boom'' ''{}'')
   \<and> fst (discoverWithRetry always_fails example_config 100 (Some 0) (Some 10)) =
     Inl (ErrorObj ''{}'' ''{}'')"
  by code_simp

text \<open>
  C8. With \<open>maxRetries = 0\<close> and a discovery step that always throws, the only attempt
  is the final one. Nothing is retried after it, and the loop still logs its warning and
  waits the 20000 milliseconds before the error is thrown: the wait is not only between
  attempts.
\<close>

theorem discoverWithRetry_waits_after_final_failure:
  "discoverWithRetry always_fails example_config 100 (Some 0) (Some 20000) =
     (Inl (ErrorObj ''{}'' ''{}''),
      [Discover example_config 100,
       Warn ''project'' ''ethereum'' 0 (ErrorObj ''{}'' ''{}''),
       Delay 20000])"
  by code_simp



subsection \<open>Claims about the initial addresses\<close>

lemma discoverWithRetry_discover_events:
  assumes "Discover c b \<in> set (snd (discoverWithRetry step cfg bn mr dl))"
  shows "c = cfg \<and> b = bn"
proof -
  let ?st = "retry_loop step cfg bn (nullish mr MAX_RETRIES) (nullish dl RETRY_DELAY_MS) 0
               \<lparr>result = None, err = None, trace = [], uncaught = None\<rparr>"
  from assms have "Discover c b \<in> set (trace ?st)"
    by (auto simp: discoverWithRetry_def Let_def split: option.splits)
  from retry_loop_discover_events[OF this] show ?thesis by simp
qed

text \<open>
  C6. When \<open>injectInitialAddresses\<close> is set and \<open>readDiscovery\<close> gives the persisted
  output of the previous run for the project and the runner's chain, \<open>run\<close> hands
  \<open>discoverWithRetry\<close>, and with it every invocation of the discovery step, a config whose
  \<open>initialAddresses\<close> are exactly the addresses of the contracts of that output, in their
  order, and whose \<open>maxAddresses\<close> and \<open>maxDepth\<close> are 3 times those of the project
  config, where an absent \<open>maxAddresses\<close> counts as 200 and an absent \<open>maxDepth\<close> as 6.
  This is stated for bounds whose products with 3 are within \<open>2 ^ 53\<close>, where the
  multiplication of the code does not round.
\<close>

theorem run_injects_initial_addresses:
  assumes "injectInitialAddresses options"
      and "readDiscovery (name (raw projectConfig)) this_chain = Inr previous"
      and "\<bar>nullish (maxAddresses (raw projectConfig)) 200 * 3\<bar> \<le> 2 ^ 53"
      and "\<bar>nullish (maxDepth (raw projectConfig)) 6 * 3\<bar> \<le> 2 ^ 53"
  shows "\<exists>config.
           initialAddresses (raw config) = map address (contracts previous)
         \<and> maxAddresses (raw config) = Some (nullish (maxAddresses (raw projectConfig)) 200 * 3)
         \<and> maxDepth (raw config) = Some (nullish (maxDepth (raw projectConfig)) 6 * 3)
         \<and> run readDiscovery this_chain step projectConfig bn options =
             discoverWithRetry (step config bn) config bn (maxRetries options)
               (retryDelayMs options)
         \<and> (\<forall>c b. Discover c b
                 \<in> set (snd (run readDiscovery this_chain step projectConfig bn options))
               \<longrightarrow> c = config \<and> b = bn)"
proof -
  define config where "config = DiscoveryConfig
     ((raw projectConfig)
        \<lparr>initialAddresses := map address (contracts previous),
         maxAddresses := Some (nullish (maxAddresses (raw projectConfig)) 200 * 3),
         maxDepth := Some (nullish (maxDepth (raw projectConfig)) 6 * 3)\<rparr>)"
  have upd: "updateInitialAddresses readDiscovery this_chain projectConfig = Inr config"
    using assms(2) by (simp add: updateInitialAddresses_def config_def)
  have run: "run readDiscovery this_chain step projectConfig bn options =
      discoverWithRetry (step config bn) config bn (maxRetries options) (retryDelayMs options)"
    using assms(1) upd by (simp add: run_def)
  have "c = config \<and> b = bn"
    if "Discover c b \<in> set (snd (run readDiscovery this_chain step projectConfig bn options))"
    for c b
    using that unfolding run by (rule discoverWithRetry_discover_events)
  with run show ?thesis
    by (intro exI[of _ config]) (simp add: config_def)
qed

text \<open>
  The example project has \<open>maxAddresses = 50\<close> and no \<open>maxDepth\<close>; the previous run found
  two contracts.
\<close>

theorem run_injects_initial_addresses_witness:
  "\<exists>config.
      initialAddresses (raw config) = [''0x01'', ''0x02'']
    \<and> maxAddresses (raw config) = Some 150
    \<and> maxDepth (raw config) = Some 18
    \<and> run example_readDiscovery ''ethereum'' example_step example_config 100 example_options =
        discoverWithRetry (example_step config 100) config 100 (Some 2) (Some 10)"
proof -
  have inj: "injectInitialAddresses example_options" by (simp add: example_options_def)
  have rd: "example_readDiscovery (name (raw example_config)) ''ethereum'' = Inr example_previous"
    by (simp add: example_readDiscovery_def example_config_def)
  have a: "\<bar>nullish (maxAddresses (raw example_config)) 200 * 3\<bar> \<le> 2 ^ 53"
    by (simp add: example_config_def)
  have d: "\<bar>nullish (maxDepth (raw example_config)) 6 * 3\<bar> \<le> 2 ^ 53"
    by (simp add: example_config_def)
  from run_injects_initial_addresses[of example_options example_readDiscovery example_config
         "''ethereum''" example_previous example_step 100, OF inj rd a d]
  obtain config where
    "initialAddresses (raw config) = map address (contracts example_previous)"
    "maxAddresses (raw config) = Some (nullish (maxAddresses (raw example_config)) 200 * 3)"
    "maxDepth (raw config) = Some (nullish (maxDepth (raw example_config)) 6 * 3)"
    "run example_readDiscovery ''ethereum'' example_step example_config 100 example_options =
       discoverWithRetry (example_step config 100) config 100 (maxRetries example_options)
         (retryDelayMs example_options)"
    by blast
  then show ?thesis
    by (intro exI[of _ config]) (simp add: example_previous_def example_config_def
          example_options_def)
qed

text \<open>
  C9. The config that \<open>updateInitialAddresses\<close> returns has the raw configuration of the
  given config with new values in \<open>initialAddresses\<close>, \<open>maxAddresses\<close> and \<open>maxDepth\<close>
  and nothing else changed: the name, the chain and all fields beyond the five named ones
  are those of the given config.
\<close>

theorem updateInitialAddresses_frame:
  assumes "updateInitialAddresses readDiscovery this_chain config = Inr config'"
  shows "raw config' =
           (raw config)\<lparr>initialAddresses := initialAddresses (raw config'),
                         maxAddresses := maxAddresses (raw config'),
                         maxDepth := maxDepth (raw config')\<rparr>
       \<and> name (raw config') = name (raw config)
       \<and> chain (raw config') = chain (raw config)
       \<and> RawDiscoveryConfig.more (raw config') = RawDiscoveryConfig.more (raw config)"
  using assms
  by (auto simp: updateInitialAddresses_def Let_def split: sum.splits)

theorem updateInitialAddresses_frame_witness:
  "\<exists>config'.
      updateInitialAddresses example_readDiscovery ''ethereum'' example_config = Inr config'
    \<and> initialAddresses (raw config') \<noteq> initialAddresses (raw example_config)
    \<and> name (raw config') = ''project''
    \<and> chain (raw config') = ''ethereum''
    \<and> RawDiscoveryConfig.more (raw config') = ''overrides''"
proof -
  define config' where "config' = DiscoveryConfig
       \<lparr>name = ''project'', chain = ''ethereum'', initialAddresses = [''0x01'', ''0x02''],
        maxAddresses = Some 150, maxDepth = Some 18, \<dots> = ''overrides''\<rparr>"
  have upd: "updateInitialAddresses example_readDiscovery ''ethereum'' example_config
      = Inr config'"
    by (simp add: updateInitialAddresses_def example_readDiscovery_def example_config_def
          example_previous_def config'_def)
  from updateInitialAddresses_frame[OF upd] upd show ?thesis
    by (intro exI[of _ config']) (simp add: example_config_def config'_def)
qed

subsection \<open>Claims about the metrics\<close>





end
